theory Spec2Isabelle
  imports Main "HOL-Library.AList"
begin

section \<open>The values a decoder receives\<close>

text \<open>
  \<^verbatim>\<open>type JSONValue = null | string | number | boolean | JSONObject | JSONArray\<close>,
  and \<^verbatim>\<open>decode(json: any)\<close>: at run time a decoder also receives \<^verbatim>\<open>undefined\<close>
  (the value of \<^verbatim>\<open>json[key]\<close> for a key the object does not have; \<^verbatim>\<open>Maybe\<close> and
  \<^verbatim>\<open>Default\<close> test for it as \<^verbatim>\<open>void 0\<close>), so \<open>Undefined\<close> is a variant of its own.

  The library only tests the variant of a number, it never computes with one: the
  type of numbers is the parameter \<open>'n\<close>. An object is the list of its own enumerable
  properties in the order the host enumerates them, each key once; it is an ordinary
  object (as \<^verbatim>\<open>JSON.parse\<close> or an object literal builds it), whose prototype is
  \<^verbatim>\<open>Object.prototype\<close>.

  Reading a property follows the prototype chain, so two kinds of values that are no
  JSON reach the decoders as well: \<open>ObjectPrototype\<close>, the object \<^verbatim>\<open>Object.prototype\<close>
  itself (what \<^verbatim>\<open>json["__proto__"]\<close> is), and \<open>PrototypeFunction key\<close>, the function
  that is the member \<^verbatim>\<open>Object.prototype[key]\<close> (what \<^verbatim>\<open>json["toString"]\<close> is).
\<close>

datatype 'n JSONValue =
    Undefined
  | Null
  | JSONBoolean bool
  | JSONNumber 'n
  | JSONString string
  | JSONArray "'n JSONValue list"
  | JSONObject "(string \<times> 'n JSONValue) list"
  | ObjectPrototype
  | PrototypeFunction string

text \<open>The host's \<^verbatim>\<open>typeof\<close> operator on these values.\<close>

fun typeof :: "'n JSONValue \<Rightarrow> string" where
  "typeof Undefined = ''undefined''"
| "typeof Null = ''object''"
| "typeof (JSONBoolean b) = ''boolean''"
| "typeof (JSONNumber n) = ''number''"
| "typeof (JSONString s) = ''string''"
| "typeof (JSONArray xs) = ''object''"
| "typeof (JSONObject ps) = ''object''"
| "typeof ObjectPrototype = ''object''"
| "typeof (PrototypeFunction key) = ''function''"

text \<open>
  Modelled from the spec: \<^verbatim>\<open>isArray\<close> is imported from \<^verbatim>\<open>./unshadow\<close>, which is not
  among the sources. The spec's \<^verbatim>\<open>Array\<close> section reads "if value is a Sequence":
  the test holds of the sequence variant and of no other.
\<close>

fun isArray :: "'n JSONValue \<Rightarrow> bool" where
  "isArray (JSONArray xs) = True"
| "isArray json = False"

text \<open>
  Modelled from the spec: \<^verbatim>\<open>objectKeys\<close> is imported from \<^verbatim>\<open>./unshadow\<close>, which is
  not among the sources. The spec's \<^verbatim>\<open>Object\<close> section reads "for every key declared
  in decoderMap (order may follow decoderMap's own declaration order)" and its
  \<^verbatim>\<open>Dictionary\<close> section "decodes every key present": the keys of the properties,
  in their order.
\<close>

definition objectKeys :: "(string \<times> 'v) list \<Rightarrow> string list" where
  "objectKeys props = map fst props"

text \<open>
  What the type guards \<^verbatim>\<open>isArray(json)\<close> and \<^verbatim>\<open>isObject(json)\<close> give access to: the
  elements of an array and the own enumerable properties of an object (none for
  \<^verbatim>\<open>Object.prototype\<close>, whose members are not enumerable). The code reads them only
  under the guard; elsewhere they are empty.
\<close>

fun elements :: "'n JSONValue \<Rightarrow> 'n JSONValue list" where
  "elements (JSONArray xs) = xs"
| "elements json = []"

fun properties :: "'n JSONValue \<Rightarrow> (string \<times> 'n JSONValue) list" where
  "properties (JSONObject ps) = ps"
| "properties json = []"

text \<open>
  The members of the host's \<^verbatim>\<open>Object.prototype\<close> (ECMAScript, with its annex for web
  browsers, which every current host implements): eleven functions and the accessor
  \<^verbatim>\<open>__proto__\<close>, whose getter returns the prototype of the object it is read from.
\<close>

definition Object_prototype_functions :: "string list" where
  "Object_prototype_functions =
     [''constructor'', ''__defineGetter__'', ''__defineSetter__'', ''hasOwnProperty'',
      ''__lookupGetter__'', ''__lookupSetter__'', ''isPrototypeOf'',
      ''propertyIsEnumerable'', ''toString'', ''valueOf'', ''toLocaleString'']"

definition Object_prototype_key :: "string \<Rightarrow> bool" where
  "Object_prototype_key key =
     (key = ''__proto__'' \<or> key \<in> set Object_prototype_functions)"

text \<open>
  \<^verbatim>\<open>key in current\<close> and \<^verbatim>\<open>json[key]\<close>. The code evaluates both only on a value that
  passed \<^verbatim>\<open>isObject\<close>: an ordinary object or \<^verbatim>\<open>Object.prototype\<close>. Both look at the own
  properties first and then along the prototype chain: \<^verbatim>\<open>in\<close> holds of an own key and
  of a member of \<^verbatim>\<open>Object.prototype\<close>, and the read gives the own value, else the
  inherited member, else \<^verbatim>\<open>undefined\<close>. The prototype of \<^verbatim>\<open>Object.prototype\<close> is
  \<^verbatim>\<open>null\<close>.
\<close>

fun has_key :: "string \<Rightarrow> 'n JSONValue \<Rightarrow> bool" where
  "has_key key (JSONObject ps) = (map_of ps key \<noteq> None \<or> Object_prototype_key key)"
| "has_key key ObjectPrototype = Object_prototype_key key"
| "has_key key current = False"

fun index :: "'n JSONValue \<Rightarrow> string \<Rightarrow> 'n JSONValue" where
  "index (JSONObject ps) key =
     (case map_of ps key of
        Some v \<Rightarrow> v
      | None \<Rightarrow>
          (if key = ''__proto__'' then ObjectPrototype
           else if key \<in> set Object_prototype_functions then PrototypeFunction key
           else Undefined))"
| "index ObjectPrototype key =
     (if key = ''__proto__'' then Null
      else if key \<in> set Object_prototype_functions then PrototypeFunction key
      else Undefined)"
| "index json key = Undefined"

text \<open>
  \<^verbatim>\<open>function isObject(param) { return (param !== null && typeof param === "object"
  && !isArray(param)); }\<close>
\<close>

definition isObject :: "'n JSONValue \<Rightarrow> bool" where
  "isObject param = (param \<noteq> Null \<and> typeof param = ''object'' \<and> \<not> isArray param)"

section \<open>Exceptions\<close>

text \<open>
  \<^verbatim>\<open>class DecodeError extends Error { constructor(expected: string, actual:
  JSONValue) { super(`Decode error: expected ${expected}, got
  ${JSON.stringify(actual)}`); } }\<close>

  A thrown value is a \<open>DecodeError\<close>, written with the arguments of its
  constructor, the host's \<open>TypeError\<close> (a method called on \<^verbatim>\<open>undefined\<close>), or any
  other value \<open>Other x\<close> that code handed to the library (a mapper, a decoder of the
  caller's own) throws.
\<close>

datatype ('n, 'x) exn =
    DecodeError string "'n JSONValue"
  | TypeError
  | Other 'x

text \<open>
  The host's \<^verbatim>\<open>JSON.stringify\<close> with one argument, on the values above. Quoting
  a string escapes the quotation mark, the backslash and the control characters
  below \<open>0x20\<close> (five of them by a letter, the others as \<^verbatim>\<open>\u00XX\<close>).
\<close>

definition hex_digit :: "nat \<Rightarrow> char" where
  "hex_digit n = ''0123456789abcdef'' ! (n mod 16)"

definition quote_char :: "char \<Rightarrow> string" where
  "quote_char c =
     (if c = CHR 0x08 then [CHR 0x5C, CHR ''b'']
      else if c = CHR 0x09 then [CHR 0x5C, CHR ''t'']
      else if c = CHR 0x0A then [CHR 0x5C, CHR ''n'']
      else if c = CHR 0x0C then [CHR 0x5C, CHR ''f'']
      else if c = CHR 0x0D then [CHR 0x5C, CHR ''r'']
      else if c = CHR 0x22 then [CHR 0x5C, CHR 0x22]
      else if c = CHR 0x5C then [CHR 0x5C, CHR 0x5C]
      else if (of_char c :: nat) < 32
        then [CHR 0x5C, CHR ''u'', CHR ''0'', CHR ''0'',
              hex_digit (of_char c div 16), hex_digit (of_char c)]
      else [c])"

definition QuoteJSONString :: "string \<Rightarrow> string" where
  "QuoteJSONString s = [CHR 0x22] @ concat (map quote_char s) @ [CHR 0x22]"

text \<open>\<^verbatim>\<open>Array.prototype.join\<close> on a list of strings.\<close>

fun join :: "string list \<Rightarrow> string \<Rightarrow> string" where
  "join [] sep = []"
| "join [x] sep = x"
| "join (x # y # ys) sep = x @ sep @ join (y # ys) sep"

text \<open>
  \<open>None\<close> is the result \<^verbatim>\<open>undefined\<close>: \<^verbatim>\<open>JSON.stringify(undefined)\<close> is
  \<^verbatim>\<open>undefined\<close>, an \<^verbatim>\<open>undefined\<close> element of an array is written \<^verbatim>\<open>null\<close>, and a
  property whose value is \<^verbatim>\<open>undefined\<close> is left out. A function is treated as
  \<^verbatim>\<open>undefined\<close> is, and \<^verbatim>\<open>Object.prototype\<close> has no enumerable property to write. The
  text of a number is the host's, given by \<open>num\<close>.
\<close>

fun JSON_stringify :: "('n \<Rightarrow> string) \<Rightarrow> 'n JSONValue \<Rightarrow> string option" where
  "JSON_stringify num Undefined = None"
| "JSON_stringify num Null = Some ''null''"
| "JSON_stringify num (JSONBoolean b) = Some (if b then ''true'' else ''false'')"
| "JSON_stringify num (JSONNumber n) = Some (num n)"
| "JSON_stringify num (JSONString s) = Some (QuoteJSONString s)"
| "JSON_stringify num (JSONArray xs) =
     Some (''['' @ join (map (\<lambda>x. case JSON_stringify num x of
                                      None \<Rightarrow> ''null'' | Some t \<Rightarrow> t) xs) '','' @ '']'')"
| "JSON_stringify num (JSONObject ps) =
     Some (''{'' @ join (concat (map (\<lambda>p. case JSON_stringify num (snd p) of
                                      None \<Rightarrow> []
                                    | Some t \<Rightarrow> [QuoteJSONString (fst p) @ '':'' @ t]) ps)) '',''
           @ ''}'')"
| "JSON_stringify num ObjectPrototype = Some ''{}''"
| "JSON_stringify num (PrototypeFunction key) = None"

text \<open>A template literal's \<^verbatim>\<open>${...}\<close> writes \<^verbatim>\<open>undefined\<close> as the word.\<close>

definition interpolate :: "string option \<Rightarrow> string" where
  "interpolate t = (case t of None \<Rightarrow> ''undefined'' | Some s \<Rightarrow> s)"

text \<open>The \<^verbatim>\<open>message\<close> of a thrown \<open>DecodeError\<close>, as its constructor builds it.\<close>

fun message :: "('n \<Rightarrow> string) \<Rightarrow> ('n, 'x) exn \<Rightarrow> string option" where
  "message num (DecodeError expected actual) =
     Some (''Decode error: expected '' @ expected @ '', got ''
           @ interpolate (JSON_stringify num actual))"
| "message num e = None"

section \<open>Decoders\<close>

text \<open>
  \<^verbatim>\<open>interface Decoder<T> { decode(json: any): T; }\<close>: a decoder is its \<^verbatim>\<open>decode\<close>
  method, which returns a \<open>T\<close> (\<open>Inr\<close>) or throws (\<open>Inl\<close>).
\<close>

type_synonym ('n, 'x, 'a) Decoder = "'n JSONValue \<Rightarrow> ('n, 'x) exn + 'a"

text \<open>
  \<^verbatim>\<open>Array.prototype.map\<close> and \<^verbatim>\<open>Array.prototype.reduce\<close> (with an initial value) for a
  callback that may throw: the elements are visited from left to right and the first
  exception ends the call.
\<close>

fun array_map :: "('a \<Rightarrow> 'e + 'b) \<Rightarrow> 'a list \<Rightarrow> 'e + 'b list" where
  "array_map f [] = Inr []"
| "array_map f (x # xs) =
     (case f x of
        Inl e \<Rightarrow> Inl e
      | Inr y \<Rightarrow> (case array_map f xs of Inl e \<Rightarrow> Inl e | Inr ys \<Rightarrow> Inr (y # ys)))"

fun reduce :: "('acc \<Rightarrow> 'a \<Rightarrow> 'e + 'acc) \<Rightarrow> 'a list \<Rightarrow> 'acc \<Rightarrow> 'e + 'acc" where
  "reduce f [] acc = Inr acc"
| "reduce f (x # xs) acc =
     (case f acc x of Inl e \<Rightarrow> Inl e | Inr acc' \<Rightarrow> reduce f xs acc')"

text \<open>
  \<^verbatim>\<open>export const Boolean: Decoder<boolean> = { decode(json) { if (typeof json ===
  "boolean") { return json; } throw new DecodeError("boolean", json); } }\<close>,
  and the same for \<^verbatim>\<open>Number\<close> and \<^verbatim>\<open>String\<close>.
\<close>

fun Boolean :: "('n, 'x, bool) Decoder" where
  "Boolean (JSONBoolean b) = Inr b"
| "Boolean json = Inl (DecodeError ''boolean'' json)"

fun Number :: "('n, 'x, 'n) Decoder" where
  "Number (JSONNumber n) = Inr n"
| "Number json = Inl (DecodeError ''number'' json)"

fun String :: "('n, 'x, string) Decoder" where
  "String (JSONString s) = Inr s"
| "String json = Inl (DecodeError ''string'' json)"

text \<open>
  \<^verbatim>\<open>if (isArray(json)) { return json.map(elementDecoder.decode, elementDecoder); }
  throw new DecodeError("array", json);\<close>
\<close>

definition Array :: "('n, 'x, 'a) Decoder \<Rightarrow> ('n, 'x, 'a list) Decoder" where
  "Array elementDecoder json =
     (if isArray json then array_map elementDecoder (elements json)
      else Inl (DecodeError ''array'' json))"

text \<open>
  \<^verbatim>\<open>if (isObject(json)) { return objectKeys(decoderMap).reduce((result, key) => {
  result[key] = decoderMap[key].decode(json[key]); return result; }, {}); }
  throw new DecodeError("object", json);\<close>

  The decoder map and the record built are lists of own properties, in the order
  \<^verbatim>\<open>objectKeys\<close> enumerates them; the fields of the record have one type \<open>'a\<close> here (a
  sum, where the fields differ). \<^verbatim>\<open>decoderMap[key]\<close> of a key that the map does not
  have is \<^verbatim>\<open>undefined\<close>, whose \<^verbatim>\<open>decode\<close> is a \<open>TypeError\<close>.
\<close>

text \<open>
  The assignment \<^verbatim>\<open>result[key] = v\<close> to a record that started as \<^verbatim>\<open>{}\<close> sets the own
  property \<open>key\<close>. The key \<^verbatim>\<open>__proto__\<close> is the exception: the assignment calls the
  setter inherited from \<^verbatim>\<open>Object.prototype\<close>, which replaces the prototype of the record
  when \<open>v\<close> is an object or \<^verbatim>\<open>null\<close> and adds no own property in any case.
\<close>

definition assign :: "string \<Rightarrow> 'a \<Rightarrow> (string \<times> 'a) list \<Rightarrow> (string \<times> 'a) list" where
  "assign key v result = (if key = ''__proto__'' then result else AList.update key v result)"

definition Object :: "(string \<times> ('n, 'x, 'a) Decoder) list \<Rightarrow> ('n, 'x, (string \<times> 'a) list) Decoder" where
  "Object decoderMap json =
     (if isObject json then
        reduce (\<lambda>result key.
                  case map_of decoderMap key of
                    None \<Rightarrow> Inl TypeError
                  | Some decoder \<Rightarrow>
                      (case decoder (index json key) of
                         Inl e \<Rightarrow> Inl e
                       | Inr v \<Rightarrow> Inr (assign key v result)))
          (objectKeys decoderMap) []
      else Inl (DecodeError ''object'' json))"

text \<open>
  \<^verbatim>\<open>return mapper(decoder.decode(json));\<close> The mapper is any function of the
  caller's: it returns or throws.
\<close>

definition Map :: "('raw \<Rightarrow> ('n, 'x) exn + 'a) \<Rightarrow> ('n, 'x, 'raw) Decoder \<Rightarrow> ('n, 'x, 'a) Decoder" where
  "Map mapper decoder json =
     (case decoder json of Inl e \<Rightarrow> Inl e | Inr raw \<Rightarrow> mapper raw)"

text \<open>A mapper that always returns: the function \<open>f\<close> itself.\<close>

definition returns :: "('raw \<Rightarrow> 'a) \<Rightarrow> 'raw \<Rightarrow> ('n, 'x) exn + 'a" where
  "returns f raw = Inr (f raw)"

text \<open>
  \<^verbatim>\<open>if (isObject(json)) { return objectKeys(json).reduce((dict, key) => {
  dict[key] = decoder.decode(json[key]); return dict; }, {}); }
  throw new DecodeError("object", json);\<close>
\<close>

definition Dictionary :: "('n, 'x, 'a) Decoder \<Rightarrow> ('n, 'x, (string \<times> 'a) list) Decoder" where
  "Dictionary decoder json =
     (if isObject json then
        reduce (\<lambda>dict key.
                  case decoder (index json key) of
                    Inl e \<Rightarrow> Inl e
                  | Inr v \<Rightarrow> Inr (assign key v dict))
          (objectKeys (properties json)) []
      else Inl (DecodeError ''object'' json))"

text \<open>
  \<^verbatim>\<open>if (json === null || json === void 0) { return null; }
  return decoder.decode(json);\<close> The result type \<^verbatim>\<open>null | T\<close> is \<open>'a option\<close>.
\<close>

definition Maybe :: "('n, 'x, 'a) Decoder \<Rightarrow> ('n, 'x, 'a option) Decoder" where
  "Maybe decoder json =
     (if json = Null \<or> json = Undefined then Inr None
      else (case decoder json of Inl e \<Rightarrow> Inl e | Inr v \<Rightarrow> Inr (Some v)))"

text \<open>
  \<^verbatim>\<open>switch (json) { case null: case void 0: return defaultValue;
  default: return decoder.decode(json); }\<close>
\<close>

definition Default :: "('n, 'x, 'a) Decoder \<Rightarrow> 'a \<Rightarrow> ('n, 'x, 'a) Decoder" where
  "Default decoder defaultValue json =
     (if json = Null \<or> json = Undefined then Inr defaultValue else decoder json)"

text \<open>
  \<^verbatim>\<open>const traverseResult = path.reduce((current, key) => {
  if (isObject(current) && (key in current)) { return current[key]; }
  throw new DecodeError(`value at ${path.join(".")}`, json); }, json);
  return decoder.decode(traverseResult);\<close>
\<close>

definition At :: "string list \<Rightarrow> ('n, 'x, 'a) Decoder \<Rightarrow> ('n, 'x, 'a) Decoder" where
  "At path decoder json =
     (case reduce (\<lambda>current key.
                     if isObject current \<and> has_key key current then Inr (index current key)
                     else Inl (DecodeError (''value at '' @ join path ''.'') json))
             path json of
        Inl e \<Rightarrow> Inl e
      | Inr traverseResult \<Rightarrow> decoder traverseResult)"

text \<open>
  \<^verbatim>\<open>try { return d1.decode(json); } catch (e) { return d2.decode(json); }\<close> and
  \<^verbatim>\<open>try { return d1.decode(json); } catch (_) { return OneOf2(d2, d3).decode(json); }\<close>
  The union \<^verbatim>\<open>T1 | T2\<close> has no tags: the alternatives have one result type here.
\<close>

definition OneOf2 :: "('n, 'x, 'a) Decoder \<Rightarrow> ('n, 'x, 'a) Decoder \<Rightarrow> ('n, 'x, 'a) Decoder" where
  "OneOf2 d1 d2 json = (case d1 json of Inr v \<Rightarrow> Inr v | Inl e \<Rightarrow> d2 json)"

definition OneOf3 :: "('n, 'x, 'a) Decoder \<Rightarrow> ('n, 'x, 'a) Decoder \<Rightarrow> ('n, 'x, 'a) Decoder
    \<Rightarrow> ('n, 'x, 'a) Decoder" where
  "OneOf3 d1 d2 d3 json = (case d1 json of Inr v \<Rightarrow> Inr v | Inl e \<Rightarrow> OneOf2 d2 d3 json)"

section \<open>The path walk, in the specification's words\<close>

text \<open>
  Section 4.8 of the specification: "walks the path left to right starting from value;
  at each step, the current node must be a Mapping containing the next path key". The
  walk ends in the node the full path resolves to, or in \<open>None\<close> at the first step whose
  node is not a mapping or lacks the key. It is written from these words, to state what
  \<open>At\<close> (written from the code) is compared with.
\<close>

fun walk_spec :: "string list \<Rightarrow> 'n JSONValue \<Rightarrow> 'n JSONValue option" where
  "walk_spec [] node = Some node"
| "walk_spec (key # rest) (JSONObject props) =
     (case map_of props key of None \<Rightarrow> None | Some child \<Rightarrow> walk_spec rest child)"
| "walk_spec (key # rest) node = None"

section \<open>Numbers in the examples\<close>

text \<open>
  The examples take natural numbers for the numbers, written as decimal numerals, as
  the host writes them: \<^verbatim>\<open>JSON.stringify(1)\<close> is \<^verbatim>\<open>1\<close>.
\<close>

fun decimal :: "nat \<Rightarrow> string" where
  "decimal n = (if n < 10 then [hex_digit n] else decimal (n div 10) @ [hex_digit (n mod 10)])"

declare decimal.simps [simp del]

section \<open>Lemmas\<close>

lemma decimal_digit: "n < 10 \<Longrightarrow> decimal n = [hex_digit n]"
  by (simp add: decimal.simps)

lemma isArray_iff: "isArray v \<longleftrightarrow> (\<exists>xs. v = JSONArray xs)"
  by (cases v) simp_all

lemma isObject_iff: "isObject v \<longleftrightarrow> (\<exists>ps. v = JSONObject ps) \<or> v = ObjectPrototype"
  by (cases v) (simp_all add: isObject_def)

text \<open>\<open>array_map\<close>: success is success on every element, and the first failure wins.\<close>

lemma array_map_Inr: "array_map f xs = Inr ys \<longleftrightarrow> map f xs = map Inr ys"
proof (induction xs arbitrary: ys)
  case Nil
  then show ?case by auto
next
  case (Cons x xs)
  show ?case
  proof (cases "f x")
    case (Inl e)
    then show ?thesis by (cases ys) auto
  next
    case (Inr y)
    then show ?thesis
      by (cases ys) (auto simp: Cons.IH [symmetric] split: sum.splits)
  qed
qed

lemma array_map_succeeds:
  "(\<exists>ys. array_map f xs = Inr ys) \<longleftrightarrow> (\<forall>x\<in>set xs. \<exists>y. f x = Inr y)"
  by (induction xs) (auto split: sum.splits)

lemma array_map_first_failure:
  "\<forall>p\<in>set pre. \<exists>y. f p = Inr y \<Longrightarrow> f x = Inl e \<Longrightarrow> array_map f (pre @ x # post) = Inl e"
  by (induction pre) (auto split: sum.splits)

text \<open>\<open>reduce\<close> over two lists in a row, and with callbacks that agree on the list.\<close>

lemma reduce_append:
  "reduce f (xs @ ys) acc =
     (case reduce f xs acc of Inl e \<Rightarrow> Inl e | Inr acc' \<Rightarrow> reduce f ys acc')"
  by (induction xs arbitrary: acc) (auto split: sum.splits)

lemma reduce_cong:
  "(\<And>acc x. x \<in> set xs \<Longrightarrow> f acc x = g acc x) \<Longrightarrow> reduce f xs acc = reduce g xs acc"
  by (induction xs arbitrary: acc) (auto split: sum.splits)

text \<open>
  On a path none of whose keys is a member of \<^verbatim>\<open>Object.prototype\<close>, the traversal of
  \<open>At\<close> is the walk of the specification, and \<open>At\<close> does what the specification says.
\<close>

lemma not_prototype_key:
  "\<not> Object_prototype_key key \<longleftrightarrow> key \<noteq> ''__proto__'' \<and> key \<notin> set Object_prototype_functions"
  by (simp add: Object_prototype_key_def)

lemma reduce_walk_spec:
  "\<forall>key\<in>set path. \<not> Object_prototype_key key \<Longrightarrow>
   reduce (\<lambda>current key. if isObject current \<and> has_key key current
                           then Inr (index current key) else Inl E) path node
   = (case walk_spec path node of None \<Rightarrow> Inl E | Some t \<Rightarrow> Inr t)"
proof (induction path node rule: walk_spec.induct)
  case (1 node)
  show ?case by simp
next
  case (2 key rest props)
  then show ?case
    by (auto simp: isObject_iff split: option.splits)
qed (simp_all add: isObject_iff)

lemma At_walk_own_keys:
  assumes "\<forall>key\<in>set path. \<not> Object_prototype_key key"
  shows "At path d v =
           (case walk_spec path v of
              None \<Rightarrow> Inl (DecodeError (''value at '' @ join path ''.'') v)
            | Some t \<Rightarrow> d t)"
  using assms by (simp add: At_def reduce_walk_spec split: option.splits)

text \<open>
  \<open>Object\<close> and a decoder map split at a key \<open>k\<close>: when the fields before \<open>k\<close> decode
  and the decoder of \<open>k\<close> throws, the call throws that exception.
\<close>

lemma index_missing:
  assumes "map_of props k = None" and "\<not> Object_prototype_key k"
    and "map_of props' = (map_of props)(k \<mapsto> Undefined)"
  shows "index (JSONObject props') key = index (JSONObject props) key"
  using assms by (auto simp: not_prototype_key split: option.splits)

lemma map_of_prefix:
  "key \<in> set (objectKeys pre) \<Longrightarrow> map_of (pre @ rest) key = map_of pre key"
  by (auto simp: objectKeys_def map_add_def map_of_eq_None_iff split: option.splits)

lemma map_of_after_prefix:
  assumes "k \<notin> set (objectKeys pre)"
  shows "map_of (pre @ (k, d) # post) k = Some d"
proof -
  have "map_of pre k = None"
    using assms by (simp add: map_of_eq_None_iff objectKeys_def)
  then show ?thesis by (simp add: map_add_def)
qed

lemma Object_field_fails:
  assumes pre: "Object pre json = Inr r"
    and k: "k \<notin> set (objectKeys pre)"
    and d: "d (index json k) = Inl e"
  shows "Object (pre @ (k, d) # post) json = Inl e"
proof -
  let ?F = "\<lambda>dm result key.
              case map_of dm key of
                None \<Rightarrow> Inl TypeError
              | Some decoder \<Rightarrow>
                  (case decoder (index json key) of
                     Inl e \<Rightarrow> Inl e
                   | Inr v \<Rightarrow> Inr (assign key v result))"
  let ?dm = "pre @ (k, d) # post"
  have obj: "isObject json"
    using pre by (auto simp: Object_def split: if_splits)
  have "reduce (?F ?dm) (objectKeys pre) [] = reduce (?F pre) (objectKeys pre) []"
    by (rule reduce_cong) (simp only: map_of_prefix)
  also have "\<dots> = Inr r"
    using pre obj by (simp add: Object_def)
  finally have 1: "reduce (?F ?dm) (objectKeys pre) [] = Inr r" .
  have "map_of ?dm k = Some d"
    using k by (rule map_of_after_prefix)
  then have 2: "?F ?dm r k = Inl e"
    using d by (simp del: map_of_append)
  have "objectKeys ?dm = objectKeys pre @ k # objectKeys post"
    by (simp add: objectKeys_def)
  then have "reduce (?F ?dm) (objectKeys ?dm) [] = Inl e"
    using 1 2 by (simp add: reduce_append)
  then show ?thesis
    using obj by (simp add: Object_def)
qed

text \<open>The values for which \<^verbatim>\<open>JSON.stringify\<close> gives no text.\<close>

lemma JSON_stringify_None:
  "JSON_stringify num actual = None \<longleftrightarrow>
     actual = Undefined \<or> (\<exists>key. actual = PrototypeFunction key)"
  by (cases actual) simp_all

section \<open>The claims\<close>

subsection \<open>Primitive decoders\<close>

text \<open>
  Claim C4. For every input value \<open>v\<close>, each primitive decoder (\<open>Boolean\<close>, \<open>Number\<close>,
  \<open>String\<close>) returns \<open>v\<close> unchanged when the runtime variant of \<open>v\<close> (its \<open>typeof\<close>) is
  the primitive's, that is, it returns the boolean, number or string that \<open>v\<close> is; for
  a \<open>v\<close> of any other variant it throws the \<open>DecodeError\<close> whose expected is the
  primitive's name and whose actual is \<open>v\<close>.
\<close>

theorem primitives_decode:
  "(typeof v = ''boolean'' \<longrightarrow> (\<exists>b. v = JSONBoolean b \<and> Boolean v = Inr b))
   \<and> (typeof v \<noteq> ''boolean'' \<longrightarrow> Boolean v = Inl (DecodeError ''boolean'' v))
   \<and> (typeof v = ''number'' \<longrightarrow> (\<exists>n. v = JSONNumber n \<and> Number v = Inr n))
   \<and> (typeof v \<noteq> ''number'' \<longrightarrow> Number v = Inl (DecodeError ''number'' v))
   \<and> (typeof v = ''string'' \<longrightarrow> (\<exists>s. v = JSONString s \<and> String v = Inr s))
   \<and> (typeof v \<noteq> ''string'' \<longrightarrow> String v = Inl (DecodeError ''string'' v))"
  by (cases v) simp_all

theorem primitives_decode_witness:
  "typeof (JSONBoolean True :: nat JSONValue) = ''boolean''
   \<and> (Boolean (JSONBoolean True :: nat JSONValue) :: (nat, unit) exn + bool) = Inr True
   \<and> typeof (JSONString ''true'' :: nat JSONValue) \<noteq> ''boolean''
   \<and> (Boolean (JSONString ''true'') :: (nat, unit) exn + bool)
       = Inl (DecodeError ''boolean'' (JSONString ''true''))
   \<and> (Number (JSONNumber 5) :: (nat, unit) exn + nat) = Inr 5
   \<and> (Number Null :: (nat, unit) exn + nat) = Inl (DecodeError ''number'' Null)
   \<and> (String (JSONString ''x'') :: (nat, unit) exn + string) = Inr ''x''
   \<and> (String (JSONArray []) :: (nat, unit) exn + string)
       = Inl (DecodeError ''string'' (JSONArray []))"
proof -
  have 1: "typeof (JSONBoolean True :: nat JSONValue) = ''boolean''" by simp
  have 2: "typeof (JSONString ''true'' :: nat JSONValue) \<noteq> ''boolean''" by simp
  have 3: "typeof (JSONNumber 5 :: nat JSONValue) = ''number''" by simp
  have 4: "typeof (Null :: nat JSONValue) \<noteq> ''number''" by simp
  have 5: "typeof (JSONString ''x'' :: nat JSONValue) = ''string''" by simp
  have 6: "typeof (JSONArray [] :: nat JSONValue) \<noteq> ''string''" by simp
  have a: "(Boolean (JSONBoolean True :: nat JSONValue) :: (nat, unit) exn + bool) = Inr True"
    using primitives_decode [of "JSONBoolean True :: nat JSONValue"] 1 by auto
  have b: "(Boolean (JSONString ''true'') :: (nat, unit) exn + bool)
       = Inl (DecodeError ''boolean'' (JSONString ''true''))"
    using primitives_decode [of "JSONString ''true'' :: nat JSONValue"] 2 by blast
  have c: "(Number (JSONNumber 5) :: (nat, unit) exn + nat) = Inr 5"
    using primitives_decode [of "JSONNumber 5 :: nat JSONValue"] 3 by auto
  have d: "(Number Null :: (nat, unit) exn + nat) = Inl (DecodeError ''number'' Null)"
    using primitives_decode [of "Null :: nat JSONValue"] 4 by blast
  have e: "(String (JSONString ''x'') :: (nat, unit) exn + string) = Inr ''x''"
    using primitives_decode [of "JSONString ''x'' :: nat JSONValue"] 5 by auto
  have f: "(String (JSONArray []) :: (nat, unit) exn + string)
       = Inl (DecodeError ''string'' (JSONArray []))"
    using primitives_decode [of "JSONArray [] :: nat JSONValue"] 6 by blast
  from 1 2 a b c d e f show ?thesis by blast
qed

subsection \<open>Array\<close>

text \<open>
  Claim C5. For every element decoder \<open>d\<close> and input value \<open>v\<close>, \<open>Array d\<close> succeeds on
  \<open>v\<close> if and only if \<open>v\<close> is a sequence and \<open>d\<close> succeeds on every element of it. On
  success the result has the length of \<open>v\<close> and, at each position, the result of \<open>d\<close>
  on the element at that position. When an element fails and every element to its left
  succeeds, the call throws that element's exception. On a \<open>v\<close> that is not a sequence
  it throws \<open>DecodeError ''array'' v\<close>.
\<close>

theorem Array_decode:
  "((\<exists>ys. Array d v = Inr ys) \<longleftrightarrow>
      (\<exists>xs. v = JSONArray xs \<and> (\<forall>x\<in>set xs. \<exists>y. d x = Inr y)))
   \<and> (\<forall>xs ys. v = JSONArray xs \<and> Array d v = Inr ys \<longrightarrow>
         length ys = length xs \<and> (\<forall>i<length xs. d (xs ! i) = Inr (ys ! i)))
   \<and> (\<forall>pre x post e. v = JSONArray (pre @ x # post)
         \<and> (\<forall>p\<in>set pre. \<exists>y. d p = Inr y) \<and> d x = Inl e \<longrightarrow> Array d v = Inl e)
   \<and> ((\<forall>xs. v \<noteq> JSONArray xs) \<longrightarrow> Array d v = Inl (DecodeError ''array'' v))"
proof (intro conjI)
  show "(\<exists>ys. Array d v = Inr ys) \<longleftrightarrow>
      (\<exists>xs. v = JSONArray xs \<and> (\<forall>x\<in>set xs. \<exists>y. d x = Inr y))"
    by (cases v) (simp_all add: Array_def array_map_succeeds)
  show "\<forall>xs ys. v = JSONArray xs \<and> Array d v = Inr ys \<longrightarrow>
         length ys = length xs \<and> (\<forall>i<length xs. d (xs ! i) = Inr (ys ! i))"
  proof (intro allI impI)
    fix xs ys
    assume h: "v = JSONArray xs \<and> Array d v = Inr ys"
    then have m: "map d xs = map Inr ys"
      by (auto simp: Array_def array_map_Inr)
    then have l: "length ys = length xs"
      using map_eq_imp_length_eq by fastforce
    have "\<forall>i<length xs. d (xs ! i) = Inr (ys ! i)"
    proof (intro allI impI)
      fix i assume i: "i < length xs"
      then have "map d xs ! i = map Inr ys ! i" using m by simp
      then show "d (xs ! i) = Inr (ys ! i)" using i l by simp
    qed
    with l show "length ys = length xs \<and> (\<forall>i<length xs. d (xs ! i) = Inr (ys ! i))" by simp
  qed
  show "\<forall>pre x post e. v = JSONArray (pre @ x # post)
         \<and> (\<forall>p\<in>set pre. \<exists>y. d p = Inr y) \<and> d x = Inl e \<longrightarrow> Array d v = Inl e"
    by (auto simp: Array_def intro: array_map_first_failure)
  show "(\<forall>xs. v \<noteq> JSONArray xs) \<longrightarrow> Array d v = Inl (DecodeError ''array'' v)"
    by (simp add: Array_def isArray_iff)
qed

theorem Array_decode_witness:
  "(Array Number (JSONArray [JSONNumber 1, JSONNumber 2, JSONNumber 3])
      :: (nat, unit) exn + nat list) = Inr [1, 2, 3]
   \<and> (Array Number (JSONArray [JSONNumber 1, JSONString ''x'', Null])
      :: (nat, unit) exn + nat list) = Inl (DecodeError ''number'' (JSONString ''x''))
   \<and> (Array Number (JSONObject []) :: (nat, unit) exn + nat list)
       = Inl (DecodeError ''array'' (JSONObject []))"
proof -
  let ?N = "Number :: (nat, unit, nat) Decoder"
  let ?xs = "[JSONNumber 1, JSONNumber 2, JSONNumber 3] :: nat JSONValue list"
  let ?v2 = "JSONArray ([JSONNumber 1] @ JSONString ''x'' # [Null]) :: nat JSONValue"
  let ?v3 = "JSONObject [] :: nat JSONValue"
  note T1 = Array_decode [of ?N "JSONArray ?xs"]
  have all: "\<forall>x\<in>set ?xs. \<exists>y. ?N x = Inr y" by simp
  then obtain ys where ys: "Array ?N (JSONArray ?xs) = Inr ys"
    using T1 by blast
  then have len: "length ys = length ?xs"
    and nth: "\<forall>i<length ?xs. ?N (?xs ! i) = Inr (ys ! i)"
    using T1 by blast+
  from len obtain a b c where abc: "ys = [a, b, c]"
    by (auto simp: numeral_3_eq_3 length_Suc_conv)
  have "?N (?xs ! 0) = Inr (ys ! 0)" "?N (?xs ! 1) = Inr (ys ! 1)"
    "?N (?xs ! 2) = Inr (ys ! 2)"
    using nth [rule_format, of 0] nth [rule_format, of 1] nth [rule_format, of 2]
    by simp_all
  with abc have "ys = [1, 2, 3]" by simp
  with ys have 1: "Array ?N (JSONArray ?xs) = Inr [1, 2, 3]" by simp
  have pre: "\<forall>p\<in>set [JSONNumber 1 :: nat JSONValue]. \<exists>y. ?N p = Inr y" by simp
  have x: "?N (JSONString ''x'') = Inl (DecodeError ''number'' (JSONString ''x''))" by simp
  have "Array ?N ?v2 = Inl (DecodeError ''number'' (JSONString ''x''))"
    using Array_decode [of ?N ?v2] pre x by blast
  then have 2: "Array ?N (JSONArray [JSONNumber 1, JSONString ''x'', Null])
                  = Inl (DecodeError ''number'' (JSONString ''x''))" by simp
  have "\<forall>xs. ?v3 \<noteq> JSONArray xs" by simp
  then have 3: "Array ?N ?v3 = Inl (DecodeError ''array'' ?v3)"
    using Array_decode [of ?N ?v3] by blast
  from 1 2 3 show ?thesis by blast
qed

subsection \<open>Object\<close>

text \<open>
  Claim C1 says that \<open>Object\<close> gives the decoder of a declared key that the input
  lacks the value \<^verbatim>\<open>null\<close>, so that a primitive field decoder fails with actual
  \<^verbatim>\<open>null\<close>. The code evaluates \<^verbatim>\<open>json[key]\<close>, which is \<^verbatim>\<open>undefined\<close> for a missing key:
  decoding \<^verbatim>\<open>{a: "x"}\<close> with \<^verbatim>\<open>Object({a: String, b: String})\<close> throws the error of
  \<^verbatim>\<open>String\<close> on \<^verbatim>\<open>undefined\<close>, whose message ends in \<^verbatim>\<open>got undefined\<close>, while the same
  input with \<^verbatim>\<open>b: null\<close> throws the one that ends in \<^verbatim>\<open>got null\<close>.
\<close>

theorem Object_missing_key_counterexample:
  "Object [(''a'', String), (''b'', String)] (JSONObject [(''a'', JSONString ''x'')])
     = (Inl (DecodeError ''string'' Undefined) :: (nat, unit) exn + (string \<times> string) list)
   \<and> Object [(''a'', String), (''b'', String)] (JSONObject [(''a'', JSONString ''x'')])
     \<noteq> (Inl (DecodeError ''string'' Null) :: (nat, unit) exn + (string \<times> string) list)
   \<and> Object [(''a'', String), (''b'', String)]
        (JSONObject [(''a'', JSONString ''x''), (''b'', Null)])
     = (Inl (DecodeError ''string'' Null) :: (nat, unit) exn + (string \<times> string) list)
   \<and> message decimal (DecodeError ''string'' Undefined :: (nat, unit) exn)
     = Some ''Decode error: expected string, got undefined''
   \<and> message decimal (DecodeError ''string'' Null :: (nat, unit) exn)
     = Some ''Decode error: expected string, got null''"
  by (simp add: Object_def isObject_def objectKeys_def assign_def interpolate_def
      Object_prototype_functions_def)

text \<open>
  Claim C1, amended. For every decoder map, every key \<open>k\<close> that is not the name of a
  member of \<^verbatim>\<open>Object.prototype\<close> and every input mapping that does not contain \<open>k\<close>:
  \<^verbatim>\<open>json[k]\<close>, which the field decoder of \<open>k\<close> is given, is \<^verbatim>\<open>undefined\<close>, and \<open>Object\<close>
  decodes the input exactly as it decodes any mapping that has \<open>k\<close> with the value
  \<^verbatim>\<open>undefined\<close> and the same properties otherwise. When \<open>k\<close> is a declared key whose
  decoder throws on \<^verbatim>\<open>undefined\<close>, and the fields that \<^verbatim>\<open>objectKeys\<close> enumerates before
  it decode, the call throws that exception; each primitive throws on \<^verbatim>\<open>undefined\<close>
  the \<open>DecodeError\<close> of its name with actual \<^verbatim>\<open>undefined\<close>, whose message ends in
  \<^verbatim>\<open>got undefined\<close>. (For a key that names a member of \<^verbatim>\<open>Object.prototype\<close> the code
  reads the inherited member; the amended claim says nothing about such keys.)
\<close>

theorem Object_missing_key:
  "(map_of props k = None \<and> \<not> Object_prototype_key k \<longrightarrow>
      index (JSONObject props) k = Undefined)
   \<and> (map_of props k = None \<and> \<not> Object_prototype_key k
        \<and> map_of props' = (map_of props)(k \<mapsto> Undefined) \<longrightarrow>
      Object decoderMap (JSONObject props) = Object decoderMap (JSONObject props'))
   \<and> (map_of props k = None \<and> \<not> Object_prototype_key k \<and> k \<notin> set (objectKeys pre)
        \<and> (\<exists>r. Object pre (JSONObject props) = Inr r) \<and> d Undefined = Inl e \<longrightarrow>
      Object (pre @ (k, d) # post) (JSONObject props) = Inl e)
   \<and> Boolean Undefined = Inl (DecodeError ''boolean'' Undefined)
   \<and> Number Undefined = Inl (DecodeError ''number'' Undefined)
   \<and> String Undefined = Inl (DecodeError ''string'' Undefined)
   \<and> message num (DecodeError expected Undefined)
        = Some (''Decode error: expected '' @ expected @ '', got undefined'')"
proof (intro conjI impI)
  assume "map_of props k = None \<and> \<not> Object_prototype_key k"
  then show "index (JSONObject props) k = Undefined"
    by (simp add: not_prototype_key)
next
  assume h: "map_of props k = None \<and> \<not> Object_prototype_key k
        \<and> map_of props' = (map_of props)(k \<mapsto> Undefined)"
  then have e: "index (JSONObject props') = index (JSONObject props)"
    by (intro ext) (rule index_missing, simp_all)
  show "Object decoderMap (JSONObject props) = Object decoderMap (JSONObject props')"
    by (simp add: Object_def isObject_iff e cong: option.case_cong sum.case_cong)
next
  assume h: "map_of props k = None \<and> \<not> Object_prototype_key k \<and> k \<notin> set (objectKeys pre)
        \<and> (\<exists>r. Object pre (JSONObject props) = Inr r) \<and> d Undefined = Inl e"
  then obtain r where r: "Object pre (JSONObject props) = Inr r" by blast
  have "d (index (JSONObject props) k) = Inl e"
    using h by (simp add: not_prototype_key)
  with r h show "Object (pre @ (k, d) # post) (JSONObject props) = Inl e"
    by (simp add: Object_field_fails)
qed (simp_all add: interpolate_def)

theorem Object_missing_key_witness:
  "map_of [(''a'', JSONString ''x'' :: nat JSONValue)] ''b'' = None
   \<and> \<not> Object_prototype_key ''b''
   \<and> index (JSONObject [(''a'', JSONString ''x'' :: nat JSONValue)]) ''b'' = Undefined
   \<and> Object [(''a'', String), (''b'', String)] (JSONObject [(''a'', JSONString ''x'')])
     = (Object [(''a'', String), (''b'', String)]
          (JSONObject [(''b'', Undefined), (''a'', JSONString ''x'')])
        :: (nat, unit) exn + (string \<times> string) list)
   \<and> ''b'' \<notin> set (objectKeys [(''a'', String :: (nat, unit, string) Decoder)])
   \<and> Object [(''a'', String)] (JSONObject [(''a'', JSONString ''x'')])
     = (Inr [(''a'', ''x'')] :: (nat, unit) exn + (string \<times> string) list)
   \<and> Object [(''a'', String), (''b'', String)] (JSONObject [(''a'', JSONString ''x'')])
     = (Inl (DecodeError ''string'' Undefined) :: (nat, unit) exn + (string \<times> string) list)"
proof -
  let ?props = "[(''a'', JSONString ''x'' :: nat JSONValue)]"
  let ?props' = "[(''b'', Undefined), (''a'', JSONString ''x'' :: nat JSONValue)]"
  let ?pre = "[(''a'', String :: (nat, unit, string) Decoder)]"
  let ?dm = "[(''a'', String), (''b'', String)] :: (string \<times> (nat, unit, string) Decoder) list"
  have m: "map_of ?props ''b'' = None" by simp
  have n: "\<not> Object_prototype_key ''b''"
    by (simp add: Object_prototype_key_def Object_prototype_functions_def)
  have m': "map_of ?props' = (map_of ?props)(''b'' \<mapsto> Undefined)"
    by (rule ext) simp
  have k: "''b'' \<notin> set (objectKeys ?pre)" by (simp add: objectKeys_def)
  have p: "Object ?pre (JSONObject ?props) = Inr [(''a'', ''x'')]"
    by (simp add: Object_def isObject_def objectKeys_def assign_def)
  have d: "(String :: (nat, unit, string) Decoder) Undefined
             = Inl (DecodeError ''string'' Undefined)" by simp
  note T = Object_missing_key [of ?props "''b''" ?props' ?dm ?pre String
      "DecodeError ''string'' Undefined" "[]"]
  have i: "index (JSONObject ?props) ''b'' = Undefined"
    using T m n by blast
  have a: "Object ?dm (JSONObject ?props) = Object ?dm (JSONObject ?props')"
    using T m n m' by blast
  have "Object (?pre @ (''b'', String) # []) (JSONObject ?props)
          = Inl (DecodeError ''string'' Undefined)"
    using T m n k p d by blast
  then have b: "Object ?dm (JSONObject ?props) = Inl (DecodeError ''string'' Undefined)"
    by simp
  from m n i k p a b show ?thesis by blast
qed

subsection \<open>Map\<close>

text \<open>
  Claim C7. For every decoder \<open>d\<close> and every input value \<open>v\<close>, \<open>Map\<close> with the identity
  function as mapper decodes \<open>v\<close> as \<open>d\<close> does: the same value on success, the same
  exception on failure.
\<close>

theorem Map_identity: "Map (returns id) d v = d v"
  by (cases "d v") (simp_all add: Map_def returns_def)

subsection \<open>Maybe\<close>

text \<open>
  Claim C6. For every inner decoder \<open>d\<close>, \<open>Maybe d\<close> returns the "no value" marker on
  \<^verbatim>\<open>null\<close> and on \<^verbatim>\<open>undefined\<close>, whatever \<open>d\<close> is (so also for a \<open>d\<close> that throws on
  them: \<open>d\<close> is not asked). On every other input it returns what \<open>d\<close> returns and
  throws what \<open>d\<close> throws.
\<close>

theorem Maybe_decode:
  "Maybe d Null = Inr None \<and> Maybe d Undefined = Inr None
   \<and> (v \<noteq> Null \<and> v \<noteq> Undefined \<longrightarrow>
        (\<forall>r. d v = Inr r \<longrightarrow> Maybe d v = Inr (Some r))
        \<and> (\<forall>e. d v = Inl e \<longrightarrow> Maybe d v = Inl e))"
  by (simp add: Maybe_def)

theorem Maybe_decode_witness:
  "(Maybe Number Null :: (nat, unit) exn + nat option) = Inr None
   \<and> (Maybe Number Undefined :: (nat, unit) exn + nat option) = Inr None
   \<and> (Maybe Number (JSONNumber 5) :: (nat, unit) exn + nat option) = Inr (Some 5)
   \<and> (Maybe Number (JSONString ''x'') :: (nat, unit) exn + nat option)
       = Inl (DecodeError ''number'' (JSONString ''x''))"
proof -
  let ?N = "Number :: (nat, unit, nat) Decoder"
  have v5: "JSONNumber (5::nat) \<noteq> Null \<and> JSONNumber (5::nat) \<noteq> Undefined" by simp
  have vx: "(JSONString ''x'' :: nat JSONValue) \<noteq> Null
            \<and> (JSONString ''x'' :: nat JSONValue) \<noteq> Undefined" by simp
  have n5: "?N (JSONNumber 5) = Inr 5" by simp
  have nx: "?N (JSONString ''x'') = Inl (DecodeError ''number'' (JSONString ''x''))" by simp
  have 1: "Maybe ?N Null = Inr None" and 2: "Maybe ?N Undefined = Inr None"
    using Maybe_decode [of ?N Null] by blast+
  have 3: "Maybe ?N (JSONNumber 5) = Inr (Some 5)"
    using Maybe_decode [of ?N "JSONNumber 5"] v5 n5 by blast
  have 4: "Maybe ?N (JSONString ''x'') = Inl (DecodeError ''number'' (JSONString ''x''))"
    using Maybe_decode [of ?N "JSONString ''x''"] vx nx by blast
  from 1 2 3 4 show ?thesis by blast
qed

subsection \<open>At\<close>

text \<open>
  Claim C2 says that \<open>At\<close> throws the \<open>DecodeError\<close> "value at " and the path, with
  the outer value as actual, whenever a node of the walk is not a mapping or lacks the
  next key. The guard of the code, \<^verbatim>\<open>isObject(current) && (key in current)\<close>, also
  accepts a key that the node only inherits from \<^verbatim>\<open>Object.prototype\<close>, and
  \<^verbatim>\<open>current[key]\<close> is then the inherited member, which is no \<^verbatim>\<open>JSONValue\<close> although
  \<^verbatim>\<open>traverseResult\<close> is declared one. On the empty mapping \<^verbatim>\<open>{}\<close>, which lacks every
  key, \<^verbatim>\<open>At(["toString"], Number)\<close> gives \<^verbatim>\<open>Number\<close> the function
  \<^verbatim>\<open>Object.prototype.toString\<close> and throws the error of \<^verbatim>\<open>Number\<close>, whose message is
  \<^verbatim>\<open>Decode error: expected number, got undefined\<close>, instead of the error
  "value at toString"; and \<^verbatim>\<open>At(["__proto__"], Dictionary(Number))\<close> returns the empty
  dictionary instead of throwing.
\<close>

theorem At_inherited_key:
  "walk_spec [''toString''] (JSONObject [] :: nat JSONValue) = None
   \<and> (At [''toString''] Number (JSONObject []) :: (nat, unit) exn + nat)
       = Inl (DecodeError ''number'' (PrototypeFunction ''toString''))
   \<and> (At [''toString''] Number (JSONObject []) :: (nat, unit) exn + nat)
       \<noteq> Inl (DecodeError ''value at toString'' (JSONObject []))
   \<and> message decimal (DecodeError ''number'' (PrototypeFunction ''toString'') :: (nat, unit) exn)
       = Some ''Decode error: expected number, got undefined''
   \<and> walk_spec [''__proto__''] (JSONObject [] :: nat JSONValue) = None
   \<and> (At [''__proto__''] (Dictionary Number) (JSONObject [])
        :: (nat, unit) exn + (string \<times> nat) list) = Inr []"
  by (simp add: At_def isObject_def Object_prototype_key_def Object_prototype_functions_def
      Dictionary_def objectKeys_def interpolate_def)

text \<open>
  Claim C10. For every decoder \<open>d\<close> and every input value \<open>v\<close>, \<open>At\<close> with the empty
  path decodes \<open>v\<close> as \<open>d\<close> does: no step is taken and \<open>v\<close> itself goes to \<open>d\<close>.
\<close>

theorem At_empty_path: "At [] d v = d v"
  by (simp add: At_def)

subsection \<open>OneOf2 and OneOf3\<close>

text \<open>
  Claim C3. For every two or three decoders and every input value, \<open>OneOf2\<close> and
  \<open>OneOf3\<close> return the result of the first alternative, in the order given, that
  succeeds, whatever the alternatives after it are (they are not asked: the result is
  the same for alternatives that would throw). When every alternative throws, the
  exception of the last one is thrown and those before it are dropped. \<open>OneOf3 d1 d2 d3\<close>
  is \<open>d1\<close> and, when \<open>d1\<close> throws, \<open>OneOf2 d2 d3\<close>.
\<close>

theorem OneOf_order:
  "(\<forall>r. d1 v = Inr r \<longrightarrow> OneOf2 d1 d2 v = Inr r)
   \<and> (\<forall>e1 r. d1 v = Inl e1 \<and> d2 v = Inr r \<longrightarrow> OneOf2 d1 d2 v = Inr r)
   \<and> (\<forall>e1 e2. d1 v = Inl e1 \<and> d2 v = Inl e2 \<longrightarrow> OneOf2 d1 d2 v = Inl e2)
   \<and> (\<forall>r. d1 v = Inr r \<longrightarrow> OneOf3 d1 d2 d3 v = Inr r)
   \<and> (\<forall>e1 r. d1 v = Inl e1 \<and> d2 v = Inr r \<longrightarrow> OneOf3 d1 d2 d3 v = Inr r)
   \<and> (\<forall>e1 e2 r. d1 v = Inl e1 \<and> d2 v = Inl e2 \<and> d3 v = Inr r \<longrightarrow>
         OneOf3 d1 d2 d3 v = Inr r)
   \<and> (\<forall>e1 e2 e3. d1 v = Inl e1 \<and> d2 v = Inl e2 \<and> d3 v = Inl e3 \<longrightarrow>
         OneOf3 d1 d2 d3 v = Inl e3)
   \<and> OneOf3 d1 d2 d3 v = (case d1 v of Inr r \<Rightarrow> Inr r | Inl e \<Rightarrow> OneOf2 d2 d3 v)"
  by (simp add: OneOf2_def OneOf3_def)

theorem OneOf_order_witness:
  "(OneOf2 Number (Map (returns length) String) (JSONNumber 5) :: (nat, unit) exn + nat) = Inr 5
   \<and> (OneOf2 Number (Map (returns length) String) (JSONString ''x'') :: (nat, unit) exn + nat)
       = Inr 1
   \<and> (OneOf2 Number (Map (returns length) String) (JSONBoolean True) :: (nat, unit) exn + nat)
       = Inl (DecodeError ''string'' (JSONBoolean True))
   \<and> (OneOf3 Number (Map (returns length) String) (Map (returns (\<lambda>b. 0)) Boolean)
         (JSONNumber 5) :: (nat, unit) exn + nat) = Inr 5
   \<and> (OneOf3 Number (Map (returns length) String) (Map (returns (\<lambda>b. 0)) Boolean)
         (JSONString ''x'') :: (nat, unit) exn + nat) = Inr 1
   \<and> (OneOf3 Number (Map (returns length) String) (Map (returns (\<lambda>b. 0)) Boolean)
         (JSONBoolean True) :: (nat, unit) exn + nat) = Inr 0
   \<and> (OneOf3 Number (Map (returns length) String) (Map (returns (\<lambda>b. 0)) Boolean)
         Null :: (nat, unit) exn + nat) = Inl (DecodeError ''boolean'' Null)"
proof -
  let ?N = "Number :: (nat, unit, nat) Decoder"
  let ?S = "Map (returns length) String :: (nat, unit, nat) Decoder"
  let ?B = "Map (returns (\<lambda>b. 0)) Boolean :: (nat, unit, nat) Decoder"
  have n5: "?N (JSONNumber 5) = Inr 5" by simp
  have nx: "?N (JSONString ''x'') = Inl (DecodeError ''number'' (JSONString ''x''))" by simp
  have nt: "?N (JSONBoolean True) = Inl (DecodeError ''number'' (JSONBoolean True))" by simp
  have nn: "?N Null = Inl (DecodeError ''number'' Null)" by simp
  have sx: "?S (JSONString ''x'') = Inr 1" by (simp add: Map_def returns_def)
  have st: "?S (JSONBoolean True) = Inl (DecodeError ''string'' (JSONBoolean True))"
    by (simp add: Map_def)
  have sn: "?S Null = Inl (DecodeError ''string'' Null)" by (simp add: Map_def)
  have bt: "?B (JSONBoolean True) = Inr 0" by (simp add: Map_def returns_def)
  have bn: "?B Null = Inl (DecodeError ''boolean'' Null)" by (simp add: Map_def)
  have 1: "OneOf2 ?N ?S (JSONNumber 5) = Inr 5"
    using OneOf_order [of ?N "JSONNumber 5" ?S ?B] n5 by blast
  have 2: "OneOf2 ?N ?S (JSONString ''x'') = Inr 1"
    using OneOf_order [of ?N "JSONString ''x''" ?S ?B] nx sx by blast
  have 3: "OneOf2 ?N ?S (JSONBoolean True) = Inl (DecodeError ''string'' (JSONBoolean True))"
    using OneOf_order [of ?N "JSONBoolean True" ?S ?B] nt st by blast
  have 4: "OneOf3 ?N ?S ?B (JSONNumber 5) = Inr 5"
    using OneOf_order [of ?N "JSONNumber 5" ?S ?B] n5 by blast
  have 5: "OneOf3 ?N ?S ?B (JSONString ''x'') = Inr 1"
    using OneOf_order [of ?N "JSONString ''x''" ?S ?B] nx sx by blast
  have 6: "OneOf3 ?N ?S ?B (JSONBoolean True) = Inr 0"
    using OneOf_order [of ?N "JSONBoolean True" ?S ?B] nt st bt by blast
  have 7: "OneOf3 ?N ?S ?B Null = Inl (DecodeError ''boolean'' Null)"
    using OneOf_order [of ?N Null ?S ?B] nn sn bn by blast
  from 1 2 3 4 5 6 7 show ?thesis by blast
qed

text \<open>
  Claim C9. For every pair of decoders \<open>d1\<close>, \<open>d2\<close> and input value \<open>v\<close>, \<open>OneOf2\<close>
  catches whatever \<open>d1\<close> throws on \<open>v\<close>, a \<open>DecodeError\<close> or not, and then decodes with
  \<open>d2\<close>. In particular, when \<open>d1\<close> is a \<open>Map\<close> whose mapper throws a value of its own on
  what the wrapped decoder returns, \<open>Map\<close> throws that value, \<open>OneOf2\<close> drops it and the
  result is that of \<open>d2\<close>.
\<close>

theorem OneOf2_catches_all:
  "(\<forall>e. d1 v = Inl e \<longrightarrow> OneOf2 d1 d2 v = d2 v)
   \<and> (\<forall>raw x. d v = Inr raw \<and> mapper raw = Inl (Other x) \<longrightarrow>
         Map mapper d v = Inl (Other x) \<and> OneOf2 (Map mapper d) d2 v = d2 v)"
  by (simp add: OneOf2_def Map_def)

theorem OneOf2_catches_all_witness:
  "(Map (\<lambda>n. Inl (Other ''thrown by the mapper'')) Number (JSONNumber 5)
      :: (nat, string) exn + string) = Inl (Other ''thrown by the mapper'')
   \<and> (OneOf2 (Map (\<lambda>n. Inl (Other ''thrown by the mapper'')) Number) String (JSONNumber 5)
      :: (nat, string) exn + string) = Inl (DecodeError ''string'' (JSONNumber 5))
   \<and> (OneOf2 (Map (\<lambda>n. Inl (Other ''thrown by the mapper'')) Number)
         (Map (returns (\<lambda>n. ''fallback'')) Number) (JSONNumber 5)
      :: (nat, string) exn + string) = Inr ''fallback''"
proof -
  let ?m = "(\<lambda>n. Inl (Other ''thrown by the mapper'')) :: nat \<Rightarrow> (nat, string) exn + string"
  let ?N = "Number :: (nat, string, nat) Decoder"
  let ?S = "String :: (nat, string, string) Decoder"
  let ?F = "Map (returns (\<lambda>n. ''fallback'')) Number :: (nat, string, string) Decoder"
  have n: "?N (JSONNumber 5) = Inr 5" by simp
  have m: "?m 5 = Inl (Other ''thrown by the mapper'')" by simp
  have s: "?S (JSONNumber 5) = Inl (DecodeError ''string'' (JSONNumber 5))" by simp
  have f: "?F (JSONNumber 5) = Inr ''fallback''" by (simp add: Map_def returns_def)
  have 1: "Map ?m ?N (JSONNumber 5) = Inl (Other ''thrown by the mapper'')"
    using OneOf2_catches_all [of "Map ?m ?N" "JSONNumber 5" ?S ?N ?m] n m by blast
  have "OneOf2 (Map ?m ?N) ?S (JSONNumber 5) = ?S (JSONNumber 5)"
    using OneOf2_catches_all [of "Map ?m ?N" "JSONNumber 5" ?S ?N ?m] n m by blast
  then have 2: "OneOf2 (Map ?m ?N) ?S (JSONNumber 5) = Inl (DecodeError ''string'' (JSONNumber 5))"
    using s by simp
  have "OneOf2 (Map ?m ?N) ?F (JSONNumber 5) = ?F (JSONNumber 5)"
    using OneOf2_catches_all [of "Map ?m ?N" "JSONNumber 5" ?F ?N ?m] n m by blast
  then have 3: "OneOf2 (Map ?m ?N) ?F (JSONNumber 5) = Inr ''fallback''"
    using f by simp
  from 1 2 3 show ?thesis by blast
qed

subsection \<open>The message of a DecodeError\<close>

text \<open>
  Claim C8 says that the message of every \<open>DecodeError\<close> ends in the actual value's
  text in the host's JSON serialization. \<^verbatim>\<open>String.decode(undefined)\<close> throws a
  \<open>DecodeError\<close> whose actual is \<^verbatim>\<open>undefined\<close>, for which \<^verbatim>\<open>JSON.stringify\<close> gives no
  text: the message ends in the word \<^verbatim>\<open>undefined\<close>, which the template writes.
\<close>

theorem DecodeError_message_counterexample:
  "(String Undefined :: (nat, unit) exn + string) = Inl (DecodeError ''string'' Undefined)
   \<and> JSON_stringify decimal Undefined = None
   \<and> message decimal (DecodeError ''string'' Undefined :: (nat, unit) exn)
       = Some ''Decode error: expected string, got undefined''
   \<and> \<not> (\<exists>t. JSON_stringify decimal Undefined = Some t
            \<and> message decimal (DecodeError ''string'' Undefined :: (nat, unit) exn)
                = Some (''Decode error: expected string, got '' @ t))"
  by (simp add: interpolate_def)

text \<open>
  Claim C8, amended. The message of every \<open>DecodeError\<close> is "Decode error: expected ",
  the expected text, ", got " and then the text that the host's \<^verbatim>\<open>JSON.stringify\<close> gives
  for the actual value when it gives one, and the word \<^verbatim>\<open>undefined\<close> when it gives
  none, which is so exactly when the actual value is \<^verbatim>\<open>undefined\<close> or a function. This
  is the message of the errors that the primitives throw. The text of the
  serialization is \<^verbatim>\<open>null\<close>, \<^verbatim>\<open>true\<close> or \<^verbatim>\<open>false\<close>, the host's text of a number, a
  string in quotation marks with its quotation marks, backslashes and control
  characters escaped (\<^verbatim>\<open>"got"\<close>), the texts of the elements of an array between
  brackets and separated by commas, with \<^verbatim>\<open>null\<close> for an element without text, and
  the quoted keys and the texts of the properties of an object between braces
  (\<^verbatim>\<open>{"a":1}\<close>), a property without text left out.
\<close>

theorem DecodeError_message:
  "(\<forall>t. JSON_stringify num actual = Some t \<longrightarrow>
        message num (DecodeError expected actual)
          = Some (''Decode error: expected '' @ expected @ '', got '' @ t))
   \<and> (JSON_stringify num actual = None \<longrightarrow>
        message num (DecodeError expected actual)
          = Some (''Decode error: expected '' @ expected @ '', got undefined''))
   \<and> (JSON_stringify num actual = None \<longleftrightarrow>
        actual = Undefined \<or> (\<exists>key. actual = PrototypeFunction key))
   \<and> (\<forall>e. Boolean actual = Inl e \<longrightarrow>
        message num e = Some (''Decode error: expected boolean, got ''
                               @ interpolate (JSON_stringify num actual)))
   \<and> (\<forall>e. Number actual = Inl e \<longrightarrow>
        message num e = Some (''Decode error: expected number, got ''
                               @ interpolate (JSON_stringify num actual)))
   \<and> (\<forall>e. String actual = Inl e \<longrightarrow>
        message num e = Some (''Decode error: expected string, got ''
                               @ interpolate (JSON_stringify num actual)))
   \<and> JSON_stringify num Null = Some ''null''
   \<and> JSON_stringify num (JSONBoolean True) = Some ''true''
   \<and> JSON_stringify num (JSONBoolean False) = Some ''false''
   \<and> JSON_stringify num (JSONNumber n) = Some (num n)
   \<and> JSON_stringify num (JSONString s)
       = Some ([CHR 0x22] @ concat (map quote_char s) @ [CHR 0x22])
   \<and> JSON_stringify num (JSONString ''got'') = Some ([CHR 0x22] @ ''got'' @ [CHR 0x22])
   \<and> JSON_stringify num
        (JSONString [CHR ''a'', CHR 0x22, CHR 0x5C, CHR 0x0A, CHR 0x01, CHR 0x1F])
       = Some ([CHR 0x22, CHR ''a'', CHR 0x5C, CHR 0x22, CHR 0x5C, CHR 0x5C, CHR 0x5C, CHR ''n'']
               @ [CHR 0x5C] @ ''u0001'' @ [CHR 0x5C] @ ''u001f'' @ [CHR 0x22])
   \<and> quote_char (CHR 0x22) = [CHR 0x5C, CHR 0x22]
   \<and> quote_char (CHR 0x5C) = [CHR 0x5C, CHR 0x5C]
   \<and> quote_char (CHR 0x0A) = [CHR 0x5C, CHR ''n'']
   \<and> quote_char (CHR 0x08) = [CHR 0x5C, CHR ''b'']
   \<and> quote_char (CHR 0x09) = [CHR 0x5C, CHR ''t'']
   \<and> quote_char (CHR 0x0C) = [CHR 0x5C, CHR ''f'']
   \<and> quote_char (CHR 0x0D) = [CHR 0x5C, CHR ''r'']
   \<and> (\<forall>c. 32 \<le> (of_char c :: nat) \<and> c \<noteq> CHR 0x22 \<and> c \<noteq> CHR 0x5C \<longrightarrow>
         quote_char c = [c])
   \<and> (\<forall>c. (of_char c :: nat) < 32 \<and> c \<notin> {CHR 0x08, CHR 0x09, CHR 0x0A, CHR 0x0C, CHR 0x0D} \<longrightarrow>
         quote_char c = [CHR 0x5C, CHR ''u'', CHR ''0'', CHR ''0'',
                         hex_digit (of_char c div 16), hex_digit (of_char c)])
   \<and> map hex_digit [0, 1, 2, 3, 4, 5, 6, 7, 8, 9, 10, 11, 12, 13, 14, 15] = ''0123456789abcdef''
   \<and> JSON_stringify num (JSONArray xs)
       = Some (''['' @ join (map (\<lambda>x. case JSON_stringify num x of
                                        None \<Rightarrow> ''null'' | Some t \<Rightarrow> t) xs) '','' @ '']'')
   \<and> JSON_stringify num (JSONArray []) = Some ''[]''
   \<and> JSON_stringify num
        (JSONArray [JSONBoolean False, Undefined, JSONNumber n, JSONArray [Null]])
       = Some (''[false,null,'' @ num n @ '',[null]]'')
   \<and> JSON_stringify num (JSONObject ps)
       = Some (''{'' @ join (concat (map (\<lambda>p. case JSON_stringify num (snd p) of
                                        None \<Rightarrow> []
                                      | Some t \<Rightarrow> [QuoteJSONString (fst p) @ '':'' @ t]) ps)) '',''
               @ ''}'')
   \<and> JSON_stringify num (JSONObject []) = Some ''{}''
   \<and> JSON_stringify num (JSONObject [(''a'', JSONNumber n)])
       = Some (''{'' @ [CHR 0x22] @ ''a'' @ [CHR 0x22] @ '':'' @ num n @ ''}'')
   \<and> JSON_stringify num
        (JSONObject [(''a'', Null), (''u'', Undefined), (''b'', JSONBoolean True)])
       = Some (''{'' @ [CHR 0x22] @ ''a'' @ [CHR 0x22] @ '':null,''
               @ [CHR 0x22] @ ''b'' @ [CHR 0x22] @ '':true}'')
   \<and> JSON_stringify num ObjectPrototype = Some ''{}''"
proof -
  have c1: "(\<forall>t. JSON_stringify num actual = Some t \<longrightarrow>
        message num (DecodeError expected actual)
          = Some (''Decode error: expected '' @ expected @ '', got '' @ t))"
    by (simp add: interpolate_def)
  have c2: "(JSON_stringify num actual = None \<longrightarrow>
        message num (DecodeError expected actual)
          = Some (''Decode error: expected '' @ expected @ '', got undefined''))"
    by (simp add: interpolate_def)
  have c3: "(JSON_stringify num actual = None \<longleftrightarrow>
        actual = Undefined \<or> (\<exists>key. actual = PrototypeFunction key))"
    by (rule JSON_stringify_None)
  have c4: "(\<forall>e. Boolean actual = Inl e \<longrightarrow>
        message num e = Some (''Decode error: expected boolean, got ''
                               @ interpolate (JSON_stringify num actual)))"
    by (cases actual) simp_all
  have c5: "(\<forall>e. Number actual = Inl e \<longrightarrow>
        message num e = Some (''Decode error: expected number, got ''
                               @ interpolate (JSON_stringify num actual)))"
    by (cases actual) simp_all
  have c6: "(\<forall>e. String actual = Inl e \<longrightarrow>
        message num e = Some (''Decode error: expected string, got ''
                               @ interpolate (JSON_stringify num actual)))"
    by (cases actual) simp_all
  have c7: "JSON_stringify num Null = Some ''null''"
    by simp
  have c8: "JSON_stringify num (JSONBoolean True) = Some ''true''"
    by simp
  have c9: "JSON_stringify num (JSONBoolean False) = Some ''false''"
    by simp
  have c10: "JSON_stringify num (JSONNumber n) = Some (num n)"
    by simp
  have c11: "JSON_stringify num (JSONString s)
       = Some ([CHR 0x22] @ concat (map quote_char s) @ [CHR 0x22])"
    by (simp add: QuoteJSONString_def)
  have c12: "JSON_stringify num (JSONString ''got'') = Some ([CHR 0x22] @ ''got'' @ [CHR 0x22])"
    by (simp add: QuoteJSONString_def quote_char_def)
  have c13: "JSON_stringify num
        (JSONString [CHR ''a'', CHR 0x22, CHR 0x5C, CHR 0x0A, CHR 0x01, CHR 0x1F])
       = Some ([CHR 0x22, CHR ''a'', CHR 0x5C, CHR 0x22, CHR 0x5C, CHR 0x5C, CHR 0x5C, CHR ''n'']
               @ [CHR 0x5C] @ ''u0001'' @ [CHR 0x5C] @ ''u001f'' @ [CHR 0x22])"
    by (simp add: QuoteJSONString_def quote_char_def hex_digit_def)
  have c14: "quote_char (CHR 0x22) = [CHR 0x5C, CHR 0x22]"
    by (simp add: quote_char_def)
  have c15: "quote_char (CHR 0x5C) = [CHR 0x5C, CHR 0x5C]"
    by (simp add: quote_char_def)
  have c16: "quote_char (CHR 0x0A) = [CHR 0x5C, CHR ''n'']"
    by (simp add: quote_char_def)
  have c17: "quote_char (CHR 0x08) = [CHR 0x5C, CHR ''b'']"
    by (simp add: quote_char_def)
  have c18: "quote_char (CHR 0x09) = [CHR 0x5C, CHR ''t'']"
    by (simp add: quote_char_def)
  have c19: "quote_char (CHR 0x0C) = [CHR 0x5C, CHR ''f'']"
    by (simp add: quote_char_def)
  have c20: "quote_char (CHR 0x0D) = [CHR 0x5C, CHR ''r'']"
    by (simp add: quote_char_def)
  have c21: "(\<forall>c. 32 \<le> (of_char c :: nat) \<and> c \<noteq> CHR 0x22 \<and> c \<noteq> CHR 0x5C \<longrightarrow>
         quote_char c = [c])"
    by (auto simp: quote_char_def)
  have c22: "(\<forall>c. (of_char c :: nat) < 32 \<and> c \<notin> {CHR 0x08, CHR 0x09, CHR 0x0A, CHR 0x0C, CHR 0x0D} \<longrightarrow>
         quote_char c = [CHR 0x5C, CHR ''u'', CHR ''0'', CHR ''0'',
                         hex_digit (of_char c div 16), hex_digit (of_char c)])"
    by (auto simp: quote_char_def)
  have c23: "map hex_digit [0, 1, 2, 3, 4, 5, 6, 7, 8, 9, 10, 11, 12, 13, 14, 15] = ''0123456789abcdef''"
    by (simp add: hex_digit_def)
  have c24: "JSON_stringify num (JSONArray xs)
       = Some (''['' @ join (map (\<lambda>x. case JSON_stringify num x of
                                        None \<Rightarrow> ''null'' | Some t \<Rightarrow> t) xs) '','' @ '']'')"
    by simp
  have c25: "JSON_stringify num (JSONArray []) = Some ''[]''"
    by simp
  have c26: "JSON_stringify num
        (JSONArray [JSONBoolean False, Undefined, JSONNumber n, JSONArray [Null]])
       = Some (''[false,null,'' @ num n @ '',[null]]'')"
    by simp
  have c27: "JSON_stringify num (JSONObject ps)
       = Some (''{'' @ join (concat (map (\<lambda>p. case JSON_stringify num (snd p) of
                                        None \<Rightarrow> []
                                      | Some t \<Rightarrow> [QuoteJSONString (fst p) @ '':'' @ t]) ps)) '',''
               @ ''}'')"
    by simp
  have c28: "JSON_stringify num (JSONObject []) = Some ''{}''"
    by simp
  have c29: "JSON_stringify num (JSONObject [(''a'', JSONNumber n)])
       = Some (''{'' @ [CHR 0x22] @ ''a'' @ [CHR 0x22] @ '':'' @ num n @ ''}'')"
    by (simp add: QuoteJSONString_def quote_char_def)
  have c30: "JSON_stringify num
        (JSONObject [(''a'', Null), (''u'', Undefined), (''b'', JSONBoolean True)])
       = Some (''{'' @ [CHR 0x22] @ ''a'' @ [CHR 0x22] @ '':null,''
               @ [CHR 0x22] @ ''b'' @ [CHR 0x22] @ '':true}'')"
    by (simp add: QuoteJSONString_def quote_char_def)
  have c31: "JSON_stringify num ObjectPrototype = Some ''{}''"
    by simp
  show ?thesis
    by (intro conjI) (fact c1 c2 c3 c4 c5 c6 c7 c8 c9 c10 c11 c12 c13 c14 c15 c16 c17 c18 c19 c20 c21 c22 c23 c24 c25 c26 c27 c28 c29 c30 c31)+
qed

theorem DecodeError_message_witness:
  "JSON_stringify decimal (JSONObject [(''a'', JSONNumber 1)])
     = Some (''{'' @ [CHR 0x22] @ ''a'' @ [CHR 0x22] @ '':1}'')
   \<and> message decimal
       (DecodeError ''boolean'' (JSONObject [(''a'', JSONNumber 1)]) :: (nat, unit) exn)
     = Some (''Decode error: expected boolean, got {'' @ [CHR 0x22] @ ''a'' @ [CHR 0x22] @ '':1}'')
   \<and> JSON_stringify decimal (PrototypeFunction ''toString'') = None
   \<and> message decimal (DecodeError ''number'' (PrototypeFunction ''toString'') :: (nat, unit) exn)
     = Some ''Decode error: expected number, got undefined''
   \<and> (Boolean (JSONString ''true'') :: (nat, unit) exn + bool)
     = Inl (DecodeError ''boolean'' (JSONString ''true''))
   \<and> message decimal (DecodeError ''boolean'' (JSONString ''true'') :: (nat, unit) exn)
     = Some (''Decode error: expected boolean, got '' @ [CHR 0x22] @ ''true'' @ [CHR 0x22])
   \<and> 32 \<le> (of_char CHR ''a'' :: nat) \<and> CHR ''a'' \<noteq> CHR 0x22 \<and> CHR ''a'' \<noteq> CHR 0x5C
   \<and> quote_char CHR ''a'' = ''a''"
proof -
  let ?o = "JSONObject [(''a'', JSONNumber (1::nat))]"
  let ?f = "PrototypeFunction ''toString'' :: nat JSONValue"
  let ?s = "JSONString ''true'' :: nat JSONValue"
  note To = DecodeError_message [of decimal ?o "''boolean''" 1 "[]" "[]" "[]"]
  note Tf = DecodeError_message [of decimal ?f "''number''" 1 "[]" "[]" "[]"]
  note Ts = DecodeError_message [of decimal ?s "''boolean''" 1 "[]" "[]" "[]"]
  have d1: "decimal 1 = ''1''" by (simp add: decimal_digit hex_digit_def)
  have "JSON_stringify decimal ?o
          = Some (''{'' @ [CHR 0x22] @ ''a'' @ [CHR 0x22] @ '':'' @ decimal 1 @ ''}'')"
    using To by (elim conjE)
  then have so: "JSON_stringify decimal ?o = Some (''{'' @ [CHR 0x22] @ ''a'' @ [CHR 0x22] @ '':1}'')"
    by (simp only: d1) simp
  have "\<forall>t. JSON_stringify decimal ?o = Some t \<longrightarrow>
          message decimal (DecodeError ''boolean'' ?o :: (nat, unit) exn)
            = Some (''Decode error: expected '' @ ''boolean'' @ '', got '' @ t)"
    using To by (elim conjE)
  then have "message decimal (DecodeError ''boolean'' ?o :: (nat, unit) exn)
      = Some (''Decode error: expected '' @ ''boolean'' @ '', got ''
              @ (''{'' @ [CHR 0x22] @ ''a'' @ [CHR 0x22] @ '':1}''))"
    using so by blast
  then have mo: "message decimal (DecodeError ''boolean'' ?o :: (nat, unit) exn)
      = Some (''Decode error: expected boolean, got {'' @ [CHR 0x22] @ ''a'' @ [CHR 0x22] @ '':1}'')"
    by simp
  have "JSON_stringify decimal ?f = None \<longleftrightarrow>
          ?f = Undefined \<or> (\<exists>key. ?f = PrototypeFunction key)"
    using Tf by (elim conjE)
  then have sf: "JSON_stringify decimal ?f = None" by blast
  have "JSON_stringify decimal ?f = None \<longrightarrow>
          message decimal (DecodeError ''number'' ?f :: (nat, unit) exn)
            = Some (''Decode error: expected '' @ ''number'' @ '', got undefined'')"
    using Tf by (elim conjE)
  then have "message decimal (DecodeError ''number'' ?f :: (nat, unit) exn)
      = Some (''Decode error: expected '' @ ''number'' @ '', got undefined'')"
    using sf by blast
  then have mf: "message decimal (DecodeError ''number'' ?f :: (nat, unit) exn)
      = Some ''Decode error: expected number, got undefined''"
    by simp
  have bs: "(Boolean ?s :: (nat, unit) exn + bool) = Inl (DecodeError ''boolean'' ?s)" by simp
  have ss: "JSON_stringify decimal ?s = Some ([CHR 0x22] @ ''true'' @ [CHR 0x22])"
    by (simp add: QuoteJSONString_def quote_char_def)
  have "\<forall>e. (Boolean ?s :: (nat, unit) exn + bool) = Inl e \<longrightarrow>
          message decimal e = Some (''Decode error: expected boolean, got ''
                                     @ interpolate (JSON_stringify decimal ?s))"
    using Ts by (elim conjE)
  then have "message decimal (DecodeError ''boolean'' ?s :: (nat, unit) exn)
      = Some (''Decode error: expected boolean, got ''
              @ interpolate (JSON_stringify decimal ?s))"
    using bs by blast
  then have ms: "message decimal (DecodeError ''boolean'' ?s :: (nat, unit) exn)
      = Some (''Decode error: expected boolean, got '' @ [CHR 0x22] @ ''true'' @ [CHR 0x22])"
    by (simp only: ss interpolate_def option.case)
  have c: "32 \<le> (of_char CHR ''a'' :: nat) \<and> CHR ''a'' \<noteq> CHR 0x22 \<and> CHR ''a'' \<noteq> CHR 0x5C"
    by simp
  have "\<forall>c. 32 \<le> (of_char c :: nat) \<and> c \<noteq> CHR 0x22 \<and> c \<noteq> CHR 0x5C \<longrightarrow> quote_char c = [c]"
    using Ts by (elim conjE)
  then have qa: "quote_char CHR ''a'' = ''a''"
    using c by blast
  from so mo sf mf bs ms c qa show ?thesis by (intro conjI) simp_all
qed

end
